theory Spec2Isabelle
  imports Complex_Main
begin

section \<open>Data model (schema.ts)\<close>

text \<open>
  The enumerations of the schema. Both \<open>station_status\<close> and \<open>session_status\<close> have a
  value written \<open>'ACTIVE'\<close> in the source, and \<open>payment_method\<close> and \<open>payment_status\<close>
  share \<open>'PENDING'\<close>; the second of each pair carries a prefix here.
\<close>

datatype StationType = PS5 | XBOX | PC | VR

datatype StationStatus = AVAILABLE | ACTIVE | MAINTENANCE

datatype SessionStatus = SESSION_ACTIVE | COMPLETED | CANCELLED

datatype SessionType = HOURLY | FIXED

datatype PaymentMethod = CASH | MPESA | PENDING

datatype PaymentStatus = PAYMENT_PENDING | PAYMENT_COMPLETED | PAYMENT_FAILED

text \<open>
  Rows of the tables. A nullable column is an \<open>option\<close>. Timestamps are the
  milliseconds of \<open>Date.getTime()\<close>. Columns that none of the modelled operations
  reads or writes (\<open>createdAt\<close>, a session's payment linkage, the JSON blobs of a
  stat row) are left out. A JavaScript number is the rational it denotes. The charge
  of an hourly session and the \<open>real\<close> amount of a payment are rounded as the code
  rounds them (section on rounding below); the running total of hours and the amounts
  of the split-payment dialog are kept exact.
\<close>

record Station =
  station_id :: int
  station_name :: string
  stationType :: StationType
  station_status :: StationStatus
  ratePerHour :: int
  ratePerGame :: "int option"
  maintenanceReason :: "string option"
  maintenanceEta :: "string option"

record Session =
  session_id :: int
  stationId :: int
  customerId :: int
  gameId :: "int option"
  sessionType :: SessionType
  startTime :: int
  endTime :: "int option"
  duration :: "int option"
  session_status :: SessionStatus
  totalAmount :: "int option"
  createdBy :: "int option"

record Payment =
  payment_id :: int
  pay_sessionId :: "int option"
  pay_customerId :: "int option"
  pay_amount :: rat
  paymentMethod :: PaymentMethod
  payment_status :: PaymentStatus
  pay_createdBy :: "int option"

record Stat =
  stat_date :: int
  totalRevenue :: "int option"
  totalHours :: "rat option"
  activeStations :: "int option"
  activeUsers :: "int option"

record Customer =
  customer_id :: int
  fullName :: string
  loyaltyPoints :: "int option"

text \<open>
  The database: each table with a primary key is a map from the key to the row, the
  stats table is keyed by its unique \<open>date\<close> column, payments are kept in insertion
  order, and the two serial counters give the next \<open>id\<close>. Of the games and users
  tables only the set of ids is kept: they matter as targets of foreign keys.
\<close>

record Db =
  stations :: "int \<rightharpoonup> Station"
  sessions :: "int \<rightharpoonup> Session"
  payments :: "Payment list"
  stats :: "int \<rightharpoonup> Stat"
  customers :: "int \<rightharpoonup> Customer"
  game_ids :: "int set"
  user_ids :: "int set"
  next_session_id :: int
  next_payment_id :: int

section \<open>Rounding of binary floating-point numbers\<close>

text \<open>
  \<open>ilog2 n\<close> is the position of the leading bit of a positive integer, and
  \<open>binaryExponent x\<close> the exponent \<open>e\<close> with \<open>2^e \<le> x < 2^(e+1)\<close> of a
  positive rational: the difference of the leading bits of numerator and denominator,
  or one less.
\<close>

function ilog2 :: "int \<Rightarrow> int" where
  "ilog2 n = (if n < 2 then 0 else 1 + ilog2 (n div 2))"
  by pat_completeness auto
termination
  by (relation "measure nat") auto

definition pow2 :: "int \<Rightarrow> rat" where
  "pow2 e = (if e \<ge> 0 then 2 ^ nat e else 1 / 2 ^ nat (- e))"

definition binaryExponent :: "rat \<Rightarrow> int" where
  "binaryExponent x =
     (let (a, b) = quotient_of x;
          d = ilog2 a - ilog2 b
      in if pow2 d \<le> x then d else d - 1)"

text \<open>
  Rounding to the nearest number with a significand of \<open>p\<close> bits, ties to the even
  significand: the result of every IEEE 754 operation on normal numbers (overflow and
  subnormal numbers are outside the ranges the program reaches). A JavaScript number
  is a double (53 bits), a Postgres \<open>real\<close> a single (24 bits).
\<close>

definition roundBinary :: "nat \<Rightarrow> rat \<Rightarrow> rat" where
  "roundBinary p x =
     (if x = 0 then 0
      else (let ulp = pow2 (binaryExponent \<bar>x\<bar> - int p + 1);
                q = \<bar>x\<bar> / ulp;
                n = \<lfloor>q\<rfloor>;
                r = q - of_int n;
                n' = (if r < 1 / 2 then n
                      else if r > 1 / 2 then n + 1
                      else if even n then n else n + 1)
            in sgn x * of_int n' * ulp))"

definition roundDouble :: "rat \<Rightarrow> rat" where
  "roundDouble x = roundBinary 53 x"

definition roundSingle :: "rat \<Rightarrow> rat" where
  "roundSingle x = roundBinary 24 x"

section \<open>Storage operations (storage.ts)\<close>

text \<open>JavaScript arithmetic on a nullable number reads \<open>null\<close> as 0.\<close>

definition num :: "int option \<Rightarrow> int" where
  "num v = (case v of None \<Rightarrow> 0 | Some n \<Rightarrow> n)"

definition numr :: "rat option \<Rightarrow> rat" where
  "numr v = (case v of None \<Rightarrow> 0 | Some q \<Rightarrow> q)"

text \<open>
  A storage call either returns a value or throws (the database refuses the
  statement); the route's \<open>catch\<close> turns a throw into status 500. The writes made
  before the throw stay: the calls run no transaction.
\<close>

datatype 'a Try = Thrown | Value 'a

text \<open>An \<open>integer\<close> column holds 32 bits; a statement that writes more is refused.\<close>

definition int4 :: "int \<Rightarrow> bool" where
  "int4 n = (- 2147483648 \<le> n \<and> n \<le> 2147483647)"

definition int4opt :: "int option \<Rightarrow> bool" where
  "int4opt v = (case v of None \<Rightarrow> True | Some n \<Rightarrow> int4 n)"

text \<open>A nullable foreign key: null, or the id of a row of the referenced table.\<close>

definition present :: "int set \<Rightarrow> int option \<Rightarrow> bool" where
  "present ids v = (case v of None \<Rightarrow> True | Some k \<Rightarrow> k \<in> ids)"

text \<open>A missing number and the number 0 are falsy.\<close>

definition falsy :: "int option \<Rightarrow> bool" where
  "falsy v = (case v of None \<Rightarrow> True | Some n \<Rightarrow> n = 0)"

definition falsyAmount :: "rat option \<Rightarrow> bool" where
  "falsyAmount v = (case v of None \<Rightarrow> True | Some q \<Rightarrow> q = 0)"

text \<open>
  \<open>today.setHours(0, 0, 0, 0)\<close>: midnight of the day of a clock reading (the server's
  zone taken as UTC).
\<close>

definition startOfDay :: "int \<Rightarrow> int" where
  "startOfDay now = now - now mod 86400000"

definition getStation :: "Db \<Rightarrow> int \<Rightarrow> Station option" where
  "getStation db i = stations db i"

definition getSession :: "Db \<Rightarrow> int \<Rightarrow> Session option" where
  "getSession db i = sessions db i"

text \<open>\<open>UPDATE stations SET status = ... WHERE id = ...\<close>; no row, no change.\<close>

definition setStationStatus :: "Db \<Rightarrow> int \<Rightarrow> StationStatus \<Rightarrow> Db" where
  "setStationStatus db i s =
     (case stations db i of
        None \<Rightarrow> db
      | Some st \<Rightarrow> db\<lparr>stations := (stations db)(i \<mapsto> st\<lparr>station_status := s\<rparr>)\<rparr>)"

text \<open>The validated body of a session-creation request (\<open>InsertSession\<close>).\<close>

record InsertSession =
  ins_stationId :: int
  ins_customerId :: int
  ins_gameId :: "int option"
  ins_sessionType :: SessionType
  ins_startTime :: "int option"
  ins_duration :: "int option"
  ins_createdBy :: "int option"

definition newSessionRow :: "Db \<Rightarrow> int \<Rightarrow> InsertSession \<Rightarrow> Session" where
  "newSessionRow db now v =
     \<lparr>session_id = next_session_id db,
      stationId = ins_stationId v,
      customerId = ins_customerId v,
      gameId = ins_gameId v,
      sessionType = ins_sessionType v,
      startTime = (case ins_startTime v of None \<Rightarrow> now | Some t \<Rightarrow> t),
      endTime = None,
      duration = ins_duration v,
      session_status = SESSION_ACTIVE,
      totalAmount = None,
      createdBy = ins_createdBy v\<rparr>"

text \<open>
  The stats update of \<open>createSession\<close>: bump today's row, or insert it. \<open>None\<close>
  when a counter leaves the column's range.
\<close>

definition bumpStats :: "Db \<Rightarrow> int \<Rightarrow> Db option" where
  "bumpStats db today =
     (case stats db today of
        Some existingStat \<Rightarrow>
          if int4 (num (activeStations existingStat) + 1)
             \<and> int4 (num (activeUsers existingStat) + 1)
          then Some (db\<lparr>stats := (stats db)(today \<mapsto> existingStat
                \<lparr>activeStations := Some (num (activeStations existingStat) + 1),
                 activeUsers := Some (num (activeUsers existingStat) + 1)\<rparr>)\<rparr>)
          else None
      | None \<Rightarrow>
          Some (db\<lparr>stats := (stats db)(today \<mapsto>
                \<lparr>stat_date = today, totalRevenue = Some 0, totalHours = Some 0,
                 activeStations = Some 1, activeUsers = Some 1\<rparr>)\<rparr>))"

text \<open>
  The INSERT into sessions is accepted when the station, the customer, the game and
  the creating user exist and the planned duration fits its column.
\<close>

definition sessionInsertable :: "Db \<Rightarrow> InsertSession \<Rightarrow> bool" where
  "sessionInsertable db v =
     (stations db (ins_stationId v) \<noteq> None \<and> customers db (ins_customerId v) \<noteq> None
      \<and> present (game_ids db) (ins_gameId v) \<and> present (user_ids db) (ins_createdBy v)
      \<and> int4opt (ins_duration v))"

definition createSession :: "Db \<Rightarrow> int \<Rightarrow> InsertSession \<Rightarrow> Session Try \<times> Db" where
  "createSession db now v =
     (if sessionInsertable db v
      then (let newSession = newSessionRow db now v;
                db1 = db\<lparr>sessions := (sessions db)(session_id newSession \<mapsto> newSession),
                         next_session_id := next_session_id db + 1\<rparr>;
                db2 = setStationStatus db1 (ins_stationId v) ACTIVE
            in case bumpStats db2 (startOfDay now) of
                 None \<Rightarrow> (Thrown, db2)
               | Some db3 \<Rightarrow> (Value newSession, db3))
      else (Thrown, db))"

text \<open>
  The stats update of \<open>endSession\<close>: only when today's row exists. \<open>None\<close> when
  a counter leaves the column's range.
\<close>

definition settleStats :: "Db \<Rightarrow> int \<Rightarrow> int \<Rightarrow> int \<Rightarrow> Db option" where
  "settleStats db today amount durationInMinutes =
     (case stats db today of
        Some existingStat \<Rightarrow>
          if int4 (num (totalRevenue existingStat) + amount)
             \<and> int4 (max 0 (num (activeStations existingStat) - 1))
             \<and> int4 (max 0 (num (activeUsers existingStat) - 1))
          then Some (db\<lparr>stats := (stats db)(today \<mapsto> existingStat
                \<lparr>totalRevenue := Some (num (totalRevenue existingStat) + amount),
                 totalHours := Some (numr (totalHours existingStat)
                                      + of_int durationInMinutes / 60),
                 activeStations := Some (max 0 (num (activeStations existingStat) - 1)),
                 activeUsers := Some (max 0 (num (activeUsers existingStat) - 1))\<rparr>)\<rparr>)
          else None
      | None \<Rightarrow> Some db)"

text \<open>
  \<open>endSession\<close>. The UPDATE of the session is refused, and nothing is written, when
  the total or the minutes do not fit their columns. The minutes are the floor of the
  quotient by 60000, which the double division gives exactly for the millisecond counts
  of a \<open>Date\<close>.
\<close>

definition endSession :: "Db \<Rightarrow> int \<Rightarrow> int \<Rightarrow> int \<Rightarrow> Session option Try \<times> Db" where
  "endSession db now i amount =
     (case sessions db i of
        None \<Rightarrow> (Value None, db)
      | Some session \<Rightarrow>
          (let durationInMinutes = (now - startTime session) div 60000
           in if int4 amount \<and> int4 durationInMinutes
              then (let updatedSession = session\<lparr>endTime := Some now,
                                                   duration := Some durationInMinutes,
                                                   session_status := COMPLETED,
                                                   totalAmount := Some amount\<rparr>;
                        db1 = db\<lparr>sessions := (sessions db)(i \<mapsto> updatedSession)\<rparr>;
                        db2 = setStationStatus db1 (stationId session) AVAILABLE
                    in case settleStats db2 (startOfDay now) amount durationInMinutes of
                         None \<Rightarrow> (Thrown, db2)
                       | Some db3 \<Rightarrow> (Value (Some updatedSession), db3))
              else (Thrown, db)))"

record InsertPayment =
  ip_sessionId :: "int option"
  ip_customerId :: "int option"
  ip_amount :: rat
  ip_paymentMethod :: PaymentMethod
  ip_status :: "PaymentStatus option"
  ip_createdBy :: "int option"

text \<open>
  The INSERT into payments is accepted when the session, the customer and the creating
  user it names exist; the amount is stored in a \<open>real\<close> column.
\<close>

definition paymentInsertable :: "Db \<Rightarrow> InsertPayment \<Rightarrow> bool" where
  "paymentInsertable db p =
     (present (dom (sessions db)) (ip_sessionId p)
      \<and> present (dom (customers db)) (ip_customerId p)
      \<and> present (user_ids db) (ip_createdBy p))"

definition createPayment :: "Db \<Rightarrow> InsertPayment \<Rightarrow> Payment Try \<times> Db" where
  "createPayment db p =
     (if paymentInsertable db p
      then (let newPayment =
                  \<lparr>payment_id = next_payment_id db,
                   pay_sessionId = ip_sessionId p,
                   pay_customerId = ip_customerId p,
                   pay_amount = roundSingle (ip_amount p),
                   paymentMethod = ip_paymentMethod p,
                   payment_status =
                     (case ip_status p of None \<Rightarrow> PAYMENT_PENDING | Some s \<Rightarrow> s),
                   pay_createdBy = ip_createdBy p\<rparr>
            in (Value newPayment, db\<lparr>payments := payments db @ [newPayment],
                                      next_payment_id := next_payment_id db + 1\<rparr>))
      else (Thrown, db))"

text \<open>
  \<open>updateStation\<close> as the maintenance route calls it: status and reason are set, and
  the ETA when the request carries one (an undefined field is left out of the UPDATE);
  the result is the updated row, or nothing when the station does not exist.
\<close>

definition updateStationMaintenance ::
  "Db \<Rightarrow> int \<Rightarrow> string \<Rightarrow> string option \<Rightarrow> Station option \<times> Db" where
  "updateStationMaintenance db i reason eta =
     (case stations db i of
        None \<Rightarrow> (None, db)
      | Some st \<Rightarrow>
          (let st' = st\<lparr>station_status := MAINTENANCE,
                         maintenanceReason := Some reason,
                         maintenanceEta := (case eta of None \<Rightarrow> maintenanceEta st
                                            | Some e \<Rightarrow> Some e)\<rparr>
           in (Some st', db\<lparr>stations := (stations db)(i \<mapsto> st')\<rparr>)))"

section \<open>Session routes (sessionController.ts)\<close>

datatype Body = Message string | SessionBody Session | StationBody Station | PaymentBody Payment

type_synonym Response = "nat \<times> Body"

text \<open>
  The body of \<open>POST /\<close>: the station id the handler looks up first, and the fields the
  schema validation needs. A required field that is missing (or ill-typed) is
  \<open>None\<close> and makes \<open>insertSessionSchema.parse\<close> throw. The schema wants a
  \<open>Date\<close> for \<open>startTime\<close>, which no JSON body carries: a body with that field
  (its text is kept) is refused, and the start time of a session is the clock's.
\<close>

record SessionRequest =
  req_stationId :: int
  req_customerId :: "int option"
  req_gameId :: "int option"
  req_sessionType :: "SessionType option"
  req_startTime :: "string option"
  req_duration :: "int option"
  req_createdBy :: "int option"

definition parseInsertSession :: "SessionRequest \<Rightarrow> InsertSession option" where
  "parseInsertSession req =
     (case req_customerId req of
        None \<Rightarrow> None
      | Some c \<Rightarrow>
          (case req_sessionType req of
             None \<Rightarrow> None
           | Some t \<Rightarrow>
               (case req_startTime req of
                  Some text \<Rightarrow> None
                | None \<Rightarrow>
                    Some \<lparr>ins_stationId = req_stationId req, ins_customerId = c,
                          ins_gameId = req_gameId req, ins_sessionType = t,
                          ins_startTime = None, ins_duration = req_duration req,
                          ins_createdBy = req_createdBy req\<rparr>)))"

definition postSession :: "Db \<Rightarrow> int \<Rightarrow> SessionRequest \<Rightarrow> Response \<times> Db" where
  "postSession db now req =
     (case getStation db (req_stationId req) of
        None \<Rightarrow> ((404, Message ''Station not found''), db)
      | Some station \<Rightarrow>
          if station_status station \<noteq> AVAILABLE
          then ((400, Message ''Station is not available''), db)
          else (case parseInsertSession req of
                  None \<Rightarrow> ((400, Message ''Invalid session data''), db)
                | Some validatedData \<Rightarrow>
                    (case createSession db now validatedData of
                       (Thrown, db') \<Rightarrow> ((500, Message ''Error creating session''), db')
                     | (Value session, db') \<Rightarrow> ((201, SessionBody session), db'))))"

text \<open>
  The charge computed by \<open>POST /:id/end\<close> (lines 102 to 114): \<open>ratePerGame || 0\<close>
  for a FIXED session, and for any other the ceiling of elapsed hours times the hourly
  rate. The quotient and the product are doubles, each rounded.
\<close>

definition hourlyCharge :: "int \<Rightarrow> int \<Rightarrow> int" where
  "hourlyCharge elapsedMs rate =
     (let durationInHours = roundDouble (of_int elapsedMs / (1000 * 60 * 60))
      in \<lceil>roundDouble (durationInHours * of_int rate)\<rceil>)"

definition computeTotalAmount :: "Session \<Rightarrow> Station \<Rightarrow> int \<Rightarrow> int" where
  "computeTotalAmount session station now =
     (if sessionType session = FIXED
      then (case ratePerGame station of None \<Rightarrow> 0 | Some r \<Rightarrow> r)
      else hourlyCharge (now - startTime session) (ratePerHour station))"

text \<open>
  \<open>POST /:id/end\<close>. The handler reads the clock for the charge (\<open>nowC\<close>), and
  \<open>endSession\<close> reads it again for the end time (\<open>nowS\<close>). A storage call that
  throws is answered by the handler's \<open>catch\<close>.
\<close>

definition postSessionEnd :: "Db \<Rightarrow> int \<Rightarrow> int \<Rightarrow> int \<Rightarrow> Response \<times> Db" where
  "postSessionEnd db nowC nowS i =
     (case getSession db i of
        None \<Rightarrow> ((404, Message ''Session not found''), db)
      | Some session \<Rightarrow>
          if session_status session \<noteq> SESSION_ACTIVE
          then ((400, Message ''Session is not active''), db)
          else (case getStation db (stationId session) of
                  None \<Rightarrow> ((500, Message ''Station not found''), db)
                | Some station \<Rightarrow>
                    (let amount = computeTotalAmount session station nowC in
                     case endSession db nowS i amount of
                       (Thrown, db1) \<Rightarrow> ((500, Message ''Error ending session''), db1)
                     | (Value None, db1) \<Rightarrow> ((500, Message ''Failed to end session''), db1)
                     | (Value (Some updatedSession), db1) \<Rightarrow>
                         (case createPayment db1
                                \<lparr>ip_sessionId = Some i,
                                 ip_customerId = Some (customerId session),
                                 ip_amount = of_int amount,
                                 ip_paymentMethod = PENDING,
                                 ip_status = None,
                                 ip_createdBy = (if falsy (createdBy session) then None
                                                 else createdBy session)\<rparr> of
                            (Thrown, db2) \<Rightarrow> ((500, Message ''Error ending session''), db2)
                          | (Value payment, db2) \<Rightarrow>
                              ((200, SessionBody updatedSession), db2)))))"

text \<open>\<open>POST /:id/maintenance\<close> of the station routes.\<close>

definition postMaintenance :: "Db \<Rightarrow> int \<Rightarrow> string \<Rightarrow> string option \<Rightarrow> Response \<times> Db" where
  "postMaintenance db i reason eta =
     (case updateStationMaintenance db i reason eta of
        (None, db') \<Rightarrow> ((404, Message ''Station not found''), db')
      | (Some updatedStation, db') \<Rightarrow> ((200, StationBody updatedStation), db'))"

section \<open>Cash payments (cashPaymentController.ts)\<close>

text \<open>
  The body of the cash-payment request. \<open>transactionId\<close>, \<open>amount\<close> and \<open>userId\<close>
  are tested for truthiness by the handler.
\<close>

record CashPaymentRequest =
  cp_transactionId :: "int option"
  cp_amount :: "rat option"
  cp_userId :: "int option"

text \<open>\<open>Math.floor(amount / 100)\<close>: one point per 100 spent.\<close>

definition pointsToAward :: "rat \<Rightarrow> int" where
  "pointsToAward amount = \<lfloor>amount / 100\<rfloor>"

record AwardResult =
  award_id :: int
  pointsAwarded :: int

text \<open>
  \<open>DatabaseStorage.awardLoyaltyPoints\<close> logs the award and returns
  \<open>{ id: userId, pointsAwarded: points }\<close>; it runs no statement against the
  database.
\<close>

definition awardLoyaltyPoints :: "Db \<Rightarrow> int \<Rightarrow> int \<Rightarrow> AwardResult \<times> Db" where
  "awardLoyaltyPoints db userId points = (\<lparr>award_id = userId, pointsAwarded = points\<rparr>, db)"

definition processCashPayment :: "Db \<Rightarrow> CashPaymentRequest \<Rightarrow> Response \<times> Db" where
  "processCashPayment db req =
     (if falsy (cp_transactionId req) \<or> falsyAmount (cp_amount req)
      then ((400, Message ''Transaction ID and amount are required''), db)
      else (case getSession db (num (cp_transactionId req)) of
              None \<Rightarrow> ((404, Message ''Session not found''), db)
            | Some session \<Rightarrow>
                (case createPayment db
                       \<lparr>ip_sessionId = cp_transactionId req,
                        ip_customerId = None,
                        ip_amount = numr (cp_amount req),
                        ip_paymentMethod = CASH,
                        ip_status = Some PAYMENT_COMPLETED,
                        ip_createdBy = None\<rparr> of
                   (Thrown, db1) \<Rightarrow> ((500, Message ''Error processing cash payment''), db1)
                 | (Value payment, db1) \<Rightarrow>
                     (let db2 = (if falsy (cp_userId req) then db1
                                 else snd (awardLoyaltyPoints db1 (num (cp_userId req))
                                             (pointsToAward (numr (cp_amount req)))))
                      in ((200, PaymentBody payment), db2)))))"

section \<open>Split payments (SplitPaymentModal.tsx)\<close>

record Split =
  split_amount :: rat
  paid :: bool
  transactionId :: "int option"

text \<open>
  The state of the modal: the \<open>splits\<close> array, the active index, the flag of a
  transaction being created, and whether the completion callback has fired.
  \<open>totalAmount\<close> is a property of the component and a parameter of every operation.
\<close>

record Modal =
  splits :: "Split list"
  activeIndex :: nat
  isCreatingTransaction :: bool
  paymentComplete :: bool

definition initialModal :: "rat \<Rightarrow> Modal" where
  "initialModal tot =
     \<lparr>splits = [\<lparr>split_amount = tot, paid = False, transactionId = None\<rparr>],
      activeIndex = 0, isCreatingTransaction = False, paymentComplete = False\<rparr>"

definition addSplit :: "rat \<Rightarrow> Modal \<Rightarrow> Modal" where
  "addSplit tot m =
     (if length (splits m) \<ge> 5 then m
      else (let newAmount = tot / of_nat (length (splits m) + 1);
                newSplits = map (\<lambda>split. split\<lparr>split_amount := newAmount, paid := paid split\<rparr>)
                              (splits m)
            in m\<lparr>splits := newSplits
                     @ [\<lparr>split_amount = newAmount, paid = False, transactionId = None\<rparr>]\<rparr>))"

text \<open>The sum of the amounts of the paid parts (the \<open>reduce\<close> of \<open>removeSplit\<close>).\<close>

definition paidTotal :: "Split list \<Rightarrow> rat" where
  "paidTotal xs = foldl (\<lambda>acc split. acc + (if paid split then split_amount split else 0)) 0 xs"

text \<open>
  \<open>removeSplit\<close>. An index outside the array makes \<open>splits[index].paid\<close> throw, which
  leaves the state as it was.
\<close>

definition removeSplit :: "rat \<Rightarrow> Modal \<Rightarrow> nat \<Rightarrow> Modal" where
  "removeSplit tot m index =
     (if length (splits m) \<le> 1 then m
      else if index \<ge> length (splits m) then m
      else if paid (splits m ! index) then m
      else (let newSplits = take index (splits m) @ drop (Suc index) (splits m);
                unpaidSplits = filter (\<lambda>split. \<not> paid split) newSplits;
                remainingAmount = tot - paidTotal newSplits;
                newSplits' =
                  (if length unpaidSplits > 0
                   then (let amountPerSplit = remainingAmount / of_nat (length unpaidSplits)
                         in map (\<lambda>split. if \<not> paid split
                                          then split\<lparr>split_amount := amountPerSplit\<rparr>
                                          else split) newSplits)
                   else newSplits)
            in m\<lparr>splits := newSplits',
                 activeIndex := (if activeIndex m \<ge> length newSplits'
                                 then max 0 (length newSplits' - 1)
                                 else activeIndex m)\<rparr>))"

text \<open>
  \<open>updateSplitAmount\<close>. The typed text is \<open>None\<close> when \<open>parseFloat\<close> gives NaN, and
  \<open>parseFloat(value) || 0\<close> is then 0.
\<close>

definition otherPaidTotal :: "nat \<Rightarrow> Split list \<Rightarrow> rat" where
  "otherPaidTotal index xs =
     foldl (\<lambda>acc (i, split). acc + (if i = index \<or> \<not> paid split then 0 else split_amount split))
       0 (enumerate 0 xs)"

definition updateSplitAmount :: "rat \<Rightarrow> Modal \<Rightarrow> nat \<Rightarrow> rat option \<Rightarrow> Modal" where
  "updateSplitAmount tot m index v =
     (let amount = numr v in
      if index \<ge> length (splits m) then m
      else if paid (splits m ! index) then m
      else (let newSplits = (splits m)[index := (splits m ! index)\<lparr>split_amount := amount\<rparr>];
                unpaidSplits = filter (\<lambda>(i, split). \<not> paid split \<and> i \<noteq> index)
                                 (enumerate 0 newSplits);
                remainingAmount = tot - (amount + otherPaidTotal index newSplits)
            in if length unpaidSplits > 0
               then (let amountPerSplit = max 0 (remainingAmount / of_nat (length unpaidSplits))
                     in m\<lparr>splits := map (\<lambda>(i, split). if \<not> paid split \<and> i \<noteq> index
                                                  then split\<lparr>split_amount := amountPerSplit\<rparr>
                                                  else split) (enumerate 0 newSplits)\<rparr>)
               else m\<lparr>splits := newSplits\<rparr>))"

text \<open>
  \<open>handlePreparePayment\<close>: \<open>createTransaction\<close> answers with a transaction id, or
  fails (\<open>None\<close>); on a failure, or an answer whose id is falsy, only a toast is
  shown.
\<close>

definition handlePreparePayment :: "Modal \<Rightarrow> nat \<Rightarrow> int option \<Rightarrow> Modal" where
  "handlePreparePayment m index result =
     (if falsy result \<or> index \<ge> length (splits m) then m\<lparr>isCreatingTransaction := False\<rparr>
      else m\<lparr>splits := (splits m)[index := (splits m ! index)\<lparr>transactionId := result\<rparr>],
             activeIndex := index, isCreatingTransaction := False\<rparr>)"

definition nextUnpaidIndex :: "Split list \<Rightarrow> nat \<Rightarrow> nat option" where
  "nextUnpaidIndex xs index =
     (case filter (\<lambda>(i, split). i > index \<and> \<not> paid split) (enumerate 0 xs) of
        [] \<Rightarrow> None
      | (i, split) # rest \<Rightarrow> Some i)"

definition handlePaymentSuccess :: "Modal \<Rightarrow> nat \<Rightarrow> Modal" where
  "handlePaymentSuccess m index =
     (if index \<ge> length (splits m) then m
      else (let newSplits = (splits m)[index := (splits m ! index)\<lparr>paid := True\<rparr>];
                m' = m\<lparr>splits := newSplits\<rparr>
            in case nextUnpaidIndex newSplits index of
                 Some j \<Rightarrow> m'\<lparr>activeIndex := j\<rparr>
               | None \<Rightarrow> if list_all paid newSplits then m'\<lparr>paymentComplete := True\<rparr> else m'))"

text \<open>Lines 481 to 483: the balance check rendered with every state.\<close>

definition totalSplitAmount :: "Modal \<Rightarrow> rat" where
  "totalSplitAmount m = foldl (\<lambda>acc split. acc + split_amount split) 0 (splits m)"

definition isBalanced :: "rat \<Rightarrow> Modal \<Rightarrow> bool" where
  "isBalanced tot m = (\<bar>totalSplitAmount m - tot\<bar> < 1 / 100)"

text \<open>
  What the rendered row of part \<open>index\<close> offers. The Pay button is rendered for an
  unpaid part without a transaction, and is disabled while a transaction is being
  created or the splits are unbalanced. The Mark Paid button is rendered for the
  unpaid active part that has a transaction, and carries no \<open>disabled\<close> attribute.
  The amount input is disabled for a paid part only. The remove button is rendered
  for an unpaid part and disabled when one part is left. The payment panel is rendered
  when the active part has a transaction; a payment made there ends in
  \<open>handlePaymentSuccess\<close> for the active part.
\<close>

definition payEnabled :: "rat \<Rightarrow> Modal \<Rightarrow> nat \<Rightarrow> bool" where
  "payEnabled tot m index =
     (index < length (splits m) \<and> \<not> paid (splits m ! index)
      \<and> falsy (transactionId (splits m ! index))
      \<and> \<not> (isCreatingTransaction m \<or> \<not> isBalanced tot m))"

definition markPaidEnabled :: "Modal \<Rightarrow> nat \<Rightarrow> bool" where
  "markPaidEnabled m index =
     (index < length (splits m) \<and> \<not> paid (splits m ! index)
      \<and> \<not> falsy (transactionId (splits m ! index)) \<and> index = activeIndex m)"

definition panelShown :: "Modal \<Rightarrow> bool" where
  "panelShown m =
     (activeIndex m < length (splits m)
      \<and> \<not> falsy (transactionId (splits m ! activeIndex m)))"

definition amountInputEnabled :: "Modal \<Rightarrow> nat \<Rightarrow> bool" where
  "amountInputEnabled m index = (index < length (splits m) \<and> \<not> paid (splits m ! index))"

definition removeEnabled :: "Modal \<Rightarrow> nat \<Rightarrow> bool" where
  "removeEnabled m index =
     (index < length (splits m) \<and> \<not> paid (splits m ! index)
      \<and> \<not> (length (splits m) \<le> 1 \<or> paid (splits m ! index)))"

text \<open>The operator's actions on the modal, each taken only where the control allows it.\<close>

datatype Action =
    AddSplit
  | RemoveSplit nat
  | UpdateSplitAmount nat "rat option"
  | Pay nat "int option"
  | MarkPaid nat
  | PanelPaid

fun act :: "rat \<Rightarrow> Modal \<Rightarrow> Action \<Rightarrow> Modal" where
  "act tot m AddSplit = addSplit tot m"
| "act tot m (RemoveSplit i) = (if removeEnabled m i then removeSplit tot m i else m)"
| "act tot m (UpdateSplitAmount i v) =
     (if amountInputEnabled m i then updateSplitAmount tot m i v else m)"
| "act tot m (Pay i result) =
     (if payEnabled tot m i then handlePreparePayment m i result else m)"
| "act tot m (MarkPaid i) = (if markPaidEnabled m i then handlePaymentSuccess m i else m)"
| "act tot m PanelPaid = (if panelShown m then handlePaymentSuccess m (activeIndex m) else m)"

definition run :: "rat \<Rightarrow> Action list \<Rightarrow> Modal" where
  "run tot actions = foldl (act tot) (initialModal tot) actions"

section \<open>M-Pesa confirmation poll (PaymentModal.handlePayment)\<close>

datatype MpesaStatus = StatusIdle | StatusProcessing | StatusCompleted | StatusFailed

text \<open>
  What the status request to the server comes back with: no answer at all, an answer
  that is not OK (with its HTTP status), an OK answer whose body is not JSON, or an OK
  answer with a JSON body, of which only the \<open>status\<close> field is read (\<open>None\<close> when the
  body has none).
\<close>

datatype HttpReply = NetworkError | HttpError nat | InvalidJson | Json "string option"

record StatusResult =
  sr_success :: bool
  sr_status :: string

text \<open>
  \<open>checkMpesaPaymentStatus\<close> (lib/payment): every failure is caught and reported as
  the status failed; \<open>data.status || 'completed'\<close> takes a missing or empty status as
  completed.
\<close>

definition checkMpesaPaymentStatus :: "HttpReply \<Rightarrow> StatusResult" where
  "checkMpesaPaymentStatus reply =
     (case reply of
        Json status \<Rightarrow>
          \<lparr>sr_success = True,
           sr_status = (case status of
                          None \<Rightarrow> ''completed''
                        | Some text \<Rightarrow> if text = [] then ''completed'' else text)\<rparr>
      | NetworkError \<Rightarrow> \<lparr>sr_success = False, sr_status = ''failed''\<rparr>
      | HttpError code \<Rightarrow> \<lparr>sr_success = False, sr_status = ''failed''\<rparr>
      | InvalidJson \<Rightarrow> \<lparr>sr_success = False, sr_status = ''failed''\<rparr>)"

record Poll =
  statusChecks :: nat
  polling :: bool
  mpesaStatus :: MpesaStatus
  isProcessing :: bool
  clock :: nat
  checkTimes :: "nat list"
  toasts :: "string list"
  stationReset :: bool
  completeCalled :: bool

definition maxStatusChecks :: nat where
  "maxStatusChecks = 5"

definition pollIntervalMs :: nat where
  "pollIntervalMs = 5000"

text \<open>
  The state when \<open>setInterval\<close> is called: the status was set to processing before
  the request was initiated. \<open>clock\<close> counts the milliseconds since then.
\<close>

definition startPoll :: Poll where
  "startPoll =
     \<lparr>statusChecks = 0, polling = True, mpesaStatus = StatusProcessing, isProcessing = True,
      clock = 0, checkTimes = [], toasts = [], stationReset = False, completeCalled = False\<rparr>"

text \<open>
  One run of the interval callback, \<open>pollIntervalMs\<close> after the previous one. The
  server's answer to the \<open>n\<close>-th status request is \<open>server n\<close>; each request is
  taken to be answered before the next callback runs. The callback's own \<open>catch\<close>
  is never entered, since \<open>checkMpesaPaymentStatus\<close> does not throw.
\<close>

definition tick :: "(nat \<Rightarrow> HttpReply) \<Rightarrow> Poll \<Rightarrow> Poll" where
  "tick server p =
     (let p1 = p\<lparr>statusChecks := statusChecks p + 1, clock := clock p + pollIntervalMs\<rparr>
      in if statusChecks p1 > maxStatusChecks
         then p1\<lparr>polling := False, mpesaStatus := StatusIdle, isProcessing := False,
                 toasts := toasts p1 @ [''Payment Status Unknown'']\<rparr>
         else (let p2 = p1\<lparr>checkTimes := checkTimes p1 @ [clock p1]\<rparr>;
                   statusResult = checkMpesaPaymentStatus (server (statusChecks p1))
               in if sr_status statusResult = ''completed''
                  then p2\<lparr>polling := False, mpesaStatus := StatusCompleted,
                          stationReset := True,
                          toasts := toasts p2 @ [''Payment Successful''],
                          completeCalled := True\<rparr>
                  else if sr_status statusResult = ''failed''
                  then p2\<lparr>polling := False, mpesaStatus := StatusFailed,
                          isProcessing := False,
                          toasts := toasts p2 @ [''Payment Failed'']\<rparr>
                  else p2))"

function runPoll :: "(nat \<Rightarrow> HttpReply) \<Rightarrow> Poll \<Rightarrow> Poll" where
  "runPoll server p = (if polling p then runPoll server (tick server p) else p)"
  by pat_completeness auto
termination
proof (relation "measure (\<lambda>(server, p). if polling p then Suc (6 - statusChecks p) else 0)")
  show "wf (measure (\<lambda>(server, p). if polling p then Suc (6 - statusChecks p) else 0))"
    by simp
next
  fix server :: "nat \<Rightarrow> HttpReply" and p :: Poll
  assume "polling p"
  then show "((server, tick server p), (server, p))
               \<in> measure (\<lambda>(server, p). if polling p then Suc (6 - statusChecks p) else 0)"
    by (auto simp: tick_def Let_def maxStatusChecks_def)
qed






section \<open>Example data\<close>

text \<open>
  One station (200 per hour, 40 per game) and one customer; the requests below start a
  session on that station.
\<close>

definition demoStation :: Station where
  "demoStation =
     \<lparr>station_id = 1, station_name = ''S1'', stationType = PS5, station_status = AVAILABLE,
      ratePerHour = 200, ratePerGame = Some 40, maintenanceReason = None,
      maintenanceEta = None\<rparr>"

definition demoDb :: Db where
  "demoDb =
     \<lparr>stations = [1 \<mapsto> demoStation], sessions = Map.empty, payments = [],
      stats = Map.empty,
      customers = [1 \<mapsto> \<lparr>customer_id = 1, fullName = ''C1'', loyaltyPoints = Some 0\<rparr>],
      game_ids = {}, user_ids = {},
      next_session_id = 1, next_payment_id = 1\<rparr>"

definition demoRequest :: "SessionType \<Rightarrow> SessionRequest" where
  "demoRequest t =
     \<lparr>req_stationId = 1, req_customerId = Some 1, req_gameId = None,
      req_sessionType = Some t, req_startTime = None, req_duration = None,
      req_createdBy = None\<rparr>"

definition demoSession :: "SessionType \<Rightarrow> Session" where
  "demoSession t =
     \<lparr>session_id = 1, stationId = 1, customerId = 1, gameId = None, sessionType = t,
      startTime = 0, endTime = None, duration = None, session_status = SESSION_ACTIVE,
      totalAmount = None, createdBy = None\<rparr>"

text \<open>The database after a session of the given type was started at time 0.\<close>

definition startedDb :: "SessionType \<Rightarrow> Db" where
  "startedDb t = snd (postSession demoDb 0 (demoRequest t))"

text \<open>The station is put into maintenance while its hourly session runs.\<close>

definition maintenanceDb :: Db where
  "maintenanceDb = snd (postMaintenance (startedDb HOURLY) 1 ''fan'' None)"

text \<open>The same start on a station that has no per-game rate.\<close>

definition nullRateDb :: "SessionType \<Rightarrow> Db" where
  "nullRateDb t =
     snd (postSession (demoDb\<lparr>stations := [1 \<mapsto> demoStation\<lparr>ratePerGame := None\<rparr>]\<rparr>) 0
            (demoRequest t))"


definition endedDb :: Db where
  "endedDb = snd (postSessionEnd (startedDb HOURLY) 3660000 3660000 1)"

text \<open>A cash payment for session 1 on behalf of customer 1.\<close>

definition cashRequest :: "rat \<Rightarrow> CashPaymentRequest" where
  "cashRequest amount =
     \<lparr>cp_transactionId = Some 1, cp_amount = Some amount, cp_userId = Some 1\<rparr>"




section \<open>Evaluation lemmas\<close>

declare ilog2.simps [simp del]

lemmas session_defs = postSessionEnd_def postSession_def
  getStation_def getSession_def parseInsertSession_def createSession_def newSessionRow_def
  sessionInsertable_def paymentInsertable_def present_def int4_def int4opt_def
  setStationStatus_def bumpStats_def startOfDay_def endSession_def
  settleStats_def createPayment_def computeTotalAmount_def falsy_def
  Let_def num_def numr_def

lemmas demo_defs = demoDb_def demoRequest_def demoStation_def demoSession_def startedDb_def

text \<open>
  The hourly charge at 200 per hour: 204 after 61 minutes, 200 after 60 minutes, 4
  after one minute. After 33 minutes the rounded product lies just above 110 and the
  charge is 111.
\<close>

lemma hourlyCharge_61_minutes: "hourlyCharge 3660000 200 = 204"
  by code_simp

lemma hourlyCharge_60_minutes: "hourlyCharge 3600000 200 = 200"
  by code_simp

lemma hourlyCharge_1_minute: "hourlyCharge 60000 200 = 4"
  by code_simp

lemma hourlyCharge_33_minutes: "hourlyCharge 1980000 200 = 111"
  by code_simp

lemmas charge_simps = hourlyCharge_61_minutes hourlyCharge_60_minutes hourlyCharge_1_minute

lemma startedDb_session: "getSession (startedDb t) 1 = Some (demoSession t)"
  by (simp add: session_defs demo_defs)

lemma startedDb_station:
  "getStation (startedDb t) 1 = Some (demoStation\<lparr>station_status := ACTIVE\<rparr>)"
  by (simp add: session_defs demo_defs)


lemma maintenanceDb_session: "getSession maintenanceDb 1 = Some (demoSession HOURLY)"
  by (simp add: maintenanceDb_def postMaintenance_def updateStationMaintenance_def
      session_defs demo_defs)

lemma maintenanceDb_station:
  "getStation maintenanceDb 1
     = Some (demoStation\<lparr>station_status := MAINTENANCE, maintenanceReason := Some ''fan''\<rparr>)"
  by (simp add: maintenanceDb_def postMaintenance_def updateStationMaintenance_def
      session_defs demo_defs)

section \<open>Starting a session on an unavailable station\<close>

text \<open>
  C2. A session-creation request that names an existing station whose status is not
  AVAILABLE is answered with status 400 and the message that the station is not
  available, and the database after the request is the database before it: no session
  row, no station change, no stat row change.
\<close>

theorem postSession_unavailable_no_mutation:
  assumes "getStation db (req_stationId req) = Some station"
      and "station_status station \<noteq> AVAILABLE"
  shows "postSession db now req = ((400, Message ''Station is not available''), db)"
  using assms by (simp add: postSession_def)

text \<open>
  Witness for C2: the station in maintenance refuses a new session and the database
  stays as it was.
\<close>

theorem postSession_unavailable_witness:
  "map_option station_status (getStation maintenanceDb 1) = Some MAINTENANCE
   \<and> postSession maintenanceDb 7000 (demoRequest FIXED)
       = ((400, Message ''Station is not available''), maintenanceDb)"
proof -
  have "postSession maintenanceDb 7000 (demoRequest FIXED)
          = ((400, Message ''Station is not available''), maintenanceDb)"
    by (rule postSession_unavailable_no_mutation [where station =
          "demoStation\<lparr>station_status := MAINTENANCE, maintenanceReason := Some ''fan''\<rparr>"])
       (simp_all add: maintenanceDb_station demoRequest_def)
  then show ?thesis
    by (simp add: maintenanceDb_station)
qed

section \<open>The charge of an ended session\<close>

text \<open>
  C1, evaluated on the code. An hourly session at 200 per hour, started at time 0, is
  ended after exactly 61 minutes (3660000 ms): the stored total is 204, the ceiling of
  61/60 hours times 200, and not the 400 of two whole hours. Ended after exactly 60
  minutes the total is 200.
\<close>

theorem hourly_end_61_minutes_bills_204:
  "ratePerHour demoStation = 200
   \<and> map_option totalAmount
       (getSession (snd (postSessionEnd (startedDb HOURLY) 3660000 3660000 1)) 1)
       = Some (Some 204)
   \<and> map_option totalAmount
       (getSession (snd (postSessionEnd (startedDb HOURLY) 3600000 3600000 1)) 1)
       = Some (Some 200)"
  by (simp add: session_defs demo_defs charge_simps)

text \<open>
  The charge of a FIXED session does not depend on the clock: it is the station's
  per-game rate when the station has one.
\<close>

lemma computeTotalAmount_fixed:
  assumes "sessionType session = FIXED" and "ratePerGame station = Some r"
  shows "computeTotalAmount session station now = r"
  using assms by (simp add: computeTotalAmount_def)

text \<open>
  C8, evaluated on the code. A FIXED session on a station that has no per-game rate
  (the column is null) is ended: the stored total is 0, from \<open>ratePerGame || 0\<close>,
  where the station's rate is absent and the rest of the program bills such a station
  at 40 per game.
\<close>

theorem fixed_end_without_rate_bills_0:
  "map_option sessionType (getSession (nullRateDb FIXED) 1) = Some FIXED
   \<and> map_option ratePerGame (getStation (nullRateDb FIXED) 1) = Some None
   \<and> map_option totalAmount
       (getSession (snd (postSessionEnd (nullRateDb FIXED) 60000 60000 1)) 1)
       = Some (Some 0)"
  by (simp add: nullRateDb_def session_defs demo_defs)

section \<open>The station after a session ends\<close>

text \<open>
  C10. Whenever the end route answers 200 for a session, the station the session
  refers to has status AVAILABLE afterwards and every other field as before, whatever
  its status was when the session was ended; a station put into MAINTENANCE while its
  session ran is AVAILABLE again afterwards.
\<close>

theorem station_available_after_end:
  assumes "getSession db i = Some session"
      and "getStation db (stationId session) = Some station"
      and "postSessionEnd db nowC nowS i = ((200, body), db')"
  shows "getStation db' (stationId session) = Some (station\<lparr>station_status := AVAILABLE\<rparr>)"
  using assms
  by (auto simp: postSessionEnd_def endSession_def createPayment_def
      getSession_def getStation_def setStationStatus_def settleStats_def Let_def
      split: option.splits if_splits Try.splits prod.splits)

text \<open>
  The end route does answer 200 for an active session whose station exists when the
  total and the minutes fit their columns, the update of today's stat row (if there is
  one) stays in range and the pending payment can be inserted.
\<close>

lemma settleStats_frame:
  assumes "stats db' = stats db"
  shows "(settleStats db' today amount minutes = None)
           = (settleStats db today amount minutes = None)"
  using assms by (simp add: settleStats_def split: option.splits)

lemma postSessionEnd_succeeds:
  assumes "getSession db i = Some session"
      and "session_status session = SESSION_ACTIVE"
      and "getStation db (stationId session) = Some station"
      and "int4 (computeTotalAmount session station nowC)"
      and "int4 ((nowS - startTime session) div 60000)"
      and "settleStats db (startOfDay nowS) (computeTotalAmount session station nowC)
             ((nowS - startTime session) div 60000) \<noteq> None"
      and "customers db (customerId session) \<noteq> None"
      and "present (user_ids db) (createdBy session)"
  shows "\<exists>updatedSession db'.
           postSessionEnd db nowC nowS i = ((200, SessionBody updatedSession), db')"
proof -
  define amount where "amount = computeTotalAmount session station nowC"
  define minutes where "minutes = (nowS - startTime session) div 60000"
  define updatedSession where
    "updatedSession = session\<lparr>endTime := Some nowS, duration := Some minutes,
                               session_status := COMPLETED, totalAmount := Some amount\<rparr>"
  define db2 where
    "db2 = setStationStatus (db\<lparr>sessions := (sessions db)(i \<mapsto> updatedSession)\<rparr>)
             (stationId session) AVAILABLE"
  have "stats db2 = stats db"
    by (simp add: db2_def setStationStatus_def split: option.splits)
  then have "settleStats db2 (startOfDay nowS) amount minutes \<noteq> None"
    using assms(6) settleStats_frame [of db2 db] by (simp add: amount_def minutes_def)
  then obtain db3 where db3: "settleStats db2 (startOfDay nowS) amount minutes = Some db3"
    by blast
  have ended: "endSession db nowS i amount = (Value (Some updatedSession), db3)"
    using assms(1,4,5) db3
    by (simp add: endSession_def getSession_def Let_def amount_def minutes_def
        updatedSession_def db2_def)
  have keep: "sessions db3 i \<noteq> None \<and> customers db3 = customers db
                \<and> user_ids db3 = user_ids db"
    using db3
    by (auto simp: settleStats_def db2_def setStationStatus_def
        split: option.splits if_splits)
  have "present (user_ids db3) (if falsy (createdBy session) then None else createdBy session)"
    using assms(8) keep by (simp add: present_def)
  then have "paymentInsertable db3
          \<lparr>ip_sessionId = Some i, ip_customerId = Some (customerId session),
           ip_amount = of_int amount, ip_paymentMethod = PENDING, ip_status = None,
           ip_createdBy = (if falsy (createdBy session) then None else createdBy session)\<rparr>"
    using assms(7) keep by (auto simp: paymentInsertable_def present_def)
  then show ?thesis
    using assms(1,2,3) ended
    by (simp add: postSessionEnd_def createPayment_def Let_def amount_def)
qed

lemma postSessionEnd_maintenanceDb:
  "\<exists>updatedSession db'.
     postSessionEnd maintenanceDb 60000 60000 1 = ((200, SessionBody updatedSession), db')"
  by (simp add: maintenanceDb_def postMaintenance_def updateStationMaintenance_def
      session_defs demo_defs charge_simps)

text \<open>
  Witness for C10: the station that went into maintenance during its session is
  AVAILABLE once the session is ended.
\<close>

theorem station_available_after_end_witness:
  "map_option station_status (getStation maintenanceDb 1) = Some MAINTENANCE
   \<and> fst (fst (postSessionEnd maintenanceDb 60000 60000 1)) = 200
   \<and> map_option station_status
       (getStation (snd (postSessionEnd maintenanceDb 60000 60000 1)) 1) = Some AVAILABLE"
proof -
  obtain updatedSession db' where
    ok: "postSessionEnd maintenanceDb 60000 60000 1 = ((200, SessionBody updatedSession), db')"
    using postSessionEnd_maintenanceDb by blast
  have "getStation db' (stationId (demoSession HOURLY))
          = Some (demoStation\<lparr>station_status := MAINTENANCE,
                              maintenanceReason := Some ''fan'',
                              station_status := AVAILABLE\<rparr>)"
    by (rule station_available_after_end [OF maintenanceDb_session _ ok])
       (simp add: maintenanceDb_station demoSession_def)
  then show ?thesis
    using ok maintenanceDb_station by (simp add: demoSession_def)
qed

section \<open>Daily statistics\<close>





section \<open>Loyalty points\<close>

lemma pointsToAward_of_int: "pointsToAward (of_int a) = a div 100"
proof -
  have "\<lfloor>(of_int a :: rat) / of_int 100\<rfloor> = a div 100"
    by (rule floor_divide_of_int_eq)
  then show ?thesis by (simp add: pointsToAward_def)
qed

text \<open>The points computed for a payment are the truncated hundredth of the amount.\<close>

lemma pointsToAward_examples: "pointsToAward 99 = 0 \<and> pointsToAward 250 = 2"
  using pointsToAward_of_int [of 99] pointsToAward_of_int [of 250] by simp

text \<open>No cash payment, accepted or refused, changes the customers table.\<close>

lemma processCashPayment_customers:
  "customers (snd (processCashPayment db req)) = customers db"
  by (simp add: processCashPayment_def createPayment_def awardLoyaltyPoints_def Let_def
      split: option.splits Try.splits prod.splits)

lemma endedDb_customer:
  "customers endedDb 1 = Some \<lparr>customer_id = 1, fullName = ''C1'', loyaltyPoints = Some 0\<rparr>"
  by (simp add: endedDb_def session_defs demo_defs charge_simps)

lemma endedDb_session: "getSession endedDb 1 \<noteq> None"
  by (simp add: endedDb_def session_defs demo_defs charge_simps)

text \<open>
  C4, evaluated on the code. A cash payment of 250 with the customer's id supplied is
  accepted (status 200) and the award is computed as 2 points, but the customer's stored
  balance is 0 before and 0 after: \<open>awardLoyaltyPoints\<close> does not write to the
  database.
\<close>

theorem cash_payment_250_awards_nothing:
  "pointsToAward 250 = 2
   \<and> map_option loyaltyPoints (customers endedDb 1) = Some (Some 0)
   \<and> fst (fst (processCashPayment endedDb (cashRequest 250))) = 200
   \<and> map_option loyaltyPoints (customers (snd (processCashPayment endedDb (cashRequest 250))) 1)
       = Some (Some 0)"
proof -
  have "pointsToAward 250 = 2"
    using pointsToAward_of_int [of 250] by simp
  moreover have "fst (fst (processCashPayment endedDb (cashRequest 250))) = 200"
    using endedDb_session
    by (auto simp: processCashPayment_def cashRequest_def falsy_def falsyAmount_def num_def
        createPayment_def paymentInsertable_def present_def getSession_def Let_def
        split: option.splits)
  ultimately show ?thesis
    by (simp add: processCashPayment_customers endedDb_customer)
qed

section \<open>Split payments\<close>

lemmas modal_defs = run_def initialModal_def addSplit_def removeSplit_def updateSplitAmount_def
  handlePreparePayment_def handlePaymentSuccess_def nextUnpaidIndex_def totalSplitAmount_def
  isBalanced_def payEnabled_def markPaidEnabled_def amountInputEnabled_def removeEnabled_def
  panelShown_def paidTotal_def otherPaidTotal_def numr_def falsy_def Let_def enumerate_eq_zip

text \<open>The Pay button is enabled for balanced splits only.\<close>

lemma payEnabled_balanced: "payEnabled tot m i \<Longrightarrow> isBalanced tot m"
  by (simp add: payEnabled_def)

text \<open>
  C5, evaluated on the code. A charge of 100 in one part: Pay opens the part's
  transaction while the splits are balanced; the amount, still editable, is then set to
  30. The splits are no longer balanced (30 against 100), yet Mark Paid is enabled for
  the part and the payment panel is shown for it; either way the part ends up paid and
  the completion callback fires.
\<close>

theorem unbalanced_part_marked_paid:
  "run 100 [Pay 0 (Some 7), UpdateSplitAmount 0 (Some 30)]
     = \<lparr>splits = [\<lparr>split_amount = 30, paid = False, transactionId = Some 7\<rparr>],
        activeIndex = 0, isCreatingTransaction = False, paymentComplete = False\<rparr>
   \<and> \<not> isBalanced 100 (run 100 [Pay 0 (Some 7), UpdateSplitAmount 0 (Some 30)])
   \<and> markPaidEnabled (run 100 [Pay 0 (Some 7), UpdateSplitAmount 0 (Some 30)]) 0
   \<and> panelShown (run 100 [Pay 0 (Some 7), UpdateSplitAmount 0 (Some 30)])
   \<and> run 100 [Pay 0 (Some 7), UpdateSplitAmount 0 (Some 30), MarkPaid 0]
     = \<lparr>splits = [\<lparr>split_amount = 30, paid = True, transactionId = Some 7\<rparr>],
        activeIndex = 0, isCreatingTransaction = False, paymentComplete = True\<rparr>
   \<and> run 100 [Pay 0 (Some 7), UpdateSplitAmount 0 (Some 30), PanelPaid]
     = \<lparr>splits = [\<lparr>split_amount = 30, paid = True, transactionId = Some 7\<rparr>],
        activeIndex = 0, isCreatingTransaction = False, paymentComplete = True\<rparr>"
  by (simp add: modal_defs)

lemma filter_paid_reprice:
  "filter paid (map (\<lambda>split. if \<not> paid split then split\<lparr>split_amount := a\<rparr> else split) xs)
     = filter paid xs"
  by (induction xs) auto

lemma filter_paid_remove:
  assumes "i < length xs" and "\<not> paid (xs ! i)"
  shows "filter paid (take i xs @ drop (Suc i) xs) = filter paid xs"
proof -
  have "xs = take i xs @ xs ! i # drop (Suc i) xs"
    using assms(1) by (rule id_take_nth_drop)
  then have "filter paid xs = filter paid (take i xs @ xs ! i # drop (Suc i) xs)"
    by simp
  also have "\<dots> = filter paid (take i xs @ drop (Suc i) xs)"
    using assms(2) by simp
  finally show ?thesis by simp
qed

text \<open>\<open>removeSplit\<close> leaves the paid parts, amounts included, as they were.\<close>

lemma removeSplit_keeps_paid:
  "filter paid (splits (removeSplit tot m i)) = filter paid (splits m)"
  using filter_paid_remove [of i "splits m"]
  by (auto simp: removeSplit_def Let_def filter_paid_reprice)

text \<open>
  C6, evaluated on the code. A charge of 100 is split in two and the first part of 50
  is paid. Adding a third split sets every part, the paid one included, to 100/3: the
  amount of the paid part has changed.
\<close>

theorem addSplit_changes_paid_amount:
  "splits (run 100 [AddSplit, Pay 0 (Some 7), MarkPaid 0])
     = [\<lparr>split_amount = 50, paid = True, transactionId = Some 7\<rparr>,
        \<lparr>split_amount = 50, paid = False, transactionId = None\<rparr>]
   \<and> splits (addSplit 100 (run 100 [AddSplit, Pay 0 (Some 7), MarkPaid 0]))
     = [\<lparr>split_amount = 100 / 3, paid = True, transactionId = Some 7\<rparr>,
        \<lparr>split_amount = 100 / 3, paid = False, transactionId = None\<rparr>,
        \<lparr>split_amount = 100 / 3, paid = False, transactionId = None\<rparr>]"
  by (simp add: modal_defs)

lemma addSplit_length:
  "length (splits (addSplit tot m))
     = (if length (splits m) \<ge> 5 then length (splits m) else length (splits m) + 1)"
  by (simp add: addSplit_def Let_def)

lemma removeSplit_length:
  "length (splits (removeSplit tot m i))
     = (if length (splits m) \<le> 1 \<or> i \<ge> length (splits m) \<or> paid (splits m ! i)
        then length (splits m) else length (splits m) - 1)"
  by (auto simp: removeSplit_def Let_def)

lemma updateSplitAmount_length:
  "length (splits (updateSplitAmount tot m i v)) = length (splits m)"
  by (simp add: updateSplitAmount_def Let_def)

lemma handlePreparePayment_length:
  "length (splits (handlePreparePayment m i r)) = length (splits m)"
  by (simp add: handlePreparePayment_def)

lemma handlePaymentSuccess_length:
  "length (splits (handlePaymentSuccess m i)) = length (splits m)"
  by (simp add: handlePaymentSuccess_def Let_def split: option.splits)

lemma act_bounds:
  assumes "1 \<le> length (splits m)" and "length (splits m) \<le> 5"
  shows "1 \<le> length (splits (act tot m a)) \<and> length (splits (act tot m a)) \<le> 5"
  using assms
  by (cases a)
     (auto simp: addSplit_length removeSplit_length updateSplitAmount_length
        handlePreparePayment_length handlePaymentSuccess_length)

lemma foldl_act_bounds:
  assumes "1 \<le> length (splits m)" and "length (splits m) \<le> 5"
  shows "1 \<le> length (splits (foldl (act tot) m actions))
         \<and> length (splits (foldl (act tot) m actions)) \<le> 5"
  using assms
proof (induction actions arbitrary: m)
  case Nil
  then show ?case by simp
next
  case (Cons a actions)
  have "1 \<le> length (splits (act tot m a)) \<and> length (splits (act tot m a)) \<le> 5"
    using Cons.prems by (rule act_bounds)
  then show ?case
    using Cons.IH [of "act tot m a"] by simp
qed

text \<open>
  C9. After any sequence of actions on the modal the number of parts is between 1 and
  5. \<open>addSplit\<close> on 5 parts and \<open>removeSplit\<close> on 1 part change nothing, and each
  of \<open>addSplit\<close>, \<open>removeSplit\<close> and \<open>updateSplitAmount\<close> takes a state with 1 to
  5 parts to a state with 1 to 5 parts.
\<close>

theorem split_count_between_1_and_5:
  "1 \<le> length (splits (run tot actions)) \<and> length (splits (run tot actions)) \<le> 5
   \<and> (length (splits m) \<ge> 5 \<longrightarrow> addSplit tot m = m)
   \<and> (length (splits m) \<le> 1 \<longrightarrow> removeSplit tot m i = m)
   \<and> (1 \<le> length (splits m) \<and> length (splits m) \<le> 5 \<longrightarrow>
        1 \<le> length (splits (addSplit tot m)) \<and> length (splits (addSplit tot m)) \<le> 5
        \<and> 1 \<le> length (splits (removeSplit tot m i))
        \<and> length (splits (removeSplit tot m i)) \<le> 5
        \<and> 1 \<le> length (splits (updateSplitAmount tot m i v))
        \<and> length (splits (updateSplitAmount tot m i v)) \<le> 5)"
proof -
  have "1 \<le> length (splits (run tot actions)) \<and> length (splits (run tot actions)) \<le> 5"
    unfolding run_def by (rule foldl_act_bounds) (simp_all add: initialModal_def)
  moreover have "length (splits m) \<ge> 5 \<longrightarrow> addSplit tot m = m"
    by (simp add: addSplit_def)
  moreover have "length (splits m) \<le> 1 \<longrightarrow> removeSplit tot m i = m"
    by (simp add: removeSplit_def)
  ultimately show ?thesis
    by (auto simp: addSplit_length removeSplit_length updateSplitAmount_length)
qed

text \<open>
  Witness for C9: four additions give 5 parts and a fifth is refused; the single
  initial part cannot be removed; an amount update keeps the count.
\<close>

theorem split_count_witness:
  "length (splits (run 100 [AddSplit, AddSplit, AddSplit, AddSplit])) = 5
   \<and> addSplit 100 (run 100 [AddSplit, AddSplit, AddSplit, AddSplit])
       = run 100 [AddSplit, AddSplit, AddSplit, AddSplit]
   \<and> length (splits (initialModal 100)) = 1
   \<and> removeSplit 100 (initialModal 100) 0 = initialModal 100
   \<and> 1 \<le> length (splits (updateSplitAmount 100 (initialModal 100) 0 (Some 30)))
   \<and> length (splits (updateSplitAmount 100 (initialModal 100) 0 (Some 30))) \<le> 5"
proof -
  have five: "length (splits (run 100 [AddSplit, AddSplit, AddSplit, AddSplit])) = 5"
    by (simp add: run_def initialModal_def addSplit_def Let_def)
  have one: "length (splits (initialModal 100)) = 1"
    by (simp add: initialModal_def)
  have "addSplit 100 (run 100 [AddSplit, AddSplit, AddSplit, AddSplit])
       = run 100 [AddSplit, AddSplit, AddSplit, AddSplit]"
    using split_count_between_1_and_5 [of 100 "[]"
        "run 100 [AddSplit, AddSplit, AddSplit, AddSplit]" 0 None] five
    by simp
  moreover have "removeSplit 100 (initialModal 100) 0 = initialModal 100
      \<and> 1 \<le> length (splits (updateSplitAmount 100 (initialModal 100) 0 (Some 30)))
      \<and> length (splits (updateSplitAmount 100 (initialModal 100) 0 (Some 30))) \<le> 5"
    using split_count_between_1_and_5 [of 100 "[]" "initialModal 100" 0 "Some 30"] one
    by simp
  ultimately show ?thesis
    using five one by simp
qed

section \<open>The confirmation poll\<close>

declare runPoll.simps [simp del]









text \<open>
  An OK answer without a status counts as a confirmation: the first check completes
  the payment.
\<close>

lemma runPoll_answer_without_status:
  "mpesaStatus (runPoll (\<lambda>n. Json None) startPoll) = StatusCompleted"
  by (simp add: runPoll.simps tick_def startPoll_def checkMpesaPaymentStatus_def Let_def
      maxStatusChecks_def pollIntervalMs_def)




end
